theory Spec2Isabelle
  imports Complex_Main "HOL-Library.AList"
begin

section \<open>JavaScript values\<close>

text \<open>
  The component \<^verbatim>\<open>SigmaNetwork.jsx\<close> works on untyped row objects. A number is a
  double: the finite ones are idealised as rationals, the three others are constructors.
  Attribute values are the primitive values a tabular row can hold.
\<close>

datatype jsnum = NaN | NegInf | Fin rat | PosInf

datatype jsval = Undefined | Null | JBool bool | Num jsnum | Str string

text \<open>An object is its list of own properties, in insertion order; a \<^verbatim>\<open>Set\<close> is the
  list of its members, in insertion order.\<close>

type_synonym obj = "(string \<times> jsval) list"

text \<open>\<^verbatim>\<open>o[k]\<close>: a missing property reads as \<^verbatim>\<open>undefined\<close>.\<close>

definition attr :: "obj \<Rightarrow> string \<Rightarrow> jsval" where
  "attr a k = (case map_of a k of None \<Rightarrow> Undefined | Some v \<Rightarrow> v)"

text \<open>\<^verbatim>\<open>v == null\<close>.\<close>

definition nullish :: "jsval \<Rightarrow> bool" where
  "nullish v = (v = Undefined \<or> v = Null)"

fun truthy :: "jsval \<Rightarrow> bool" where
  "truthy Undefined = False"
| "truthy Null = False"
| "truthy (JBool b) = b"
| "truthy (Num n) = (n \<noteq> NaN \<and> n \<noteq> Fin 0)"
| "truthy (Str s) = (s \<noteq> [])"

definition isNaN :: "jsnum \<Rightarrow> bool" where
  "isNaN n = (n = NaN)"

fun js_less :: "jsnum \<Rightarrow> jsnum \<Rightarrow> bool" where
  "js_less (Fin a) (Fin b) = (a < b)"
| "js_less NegInf (Fin b) = True"
| "js_less NegInf PosInf = True"
| "js_less (Fin a) PosInf = True"
| "js_less _ _ = False"

text \<open>\<^verbatim>\<open>Math.min\<close>, \<^verbatim>\<open>Math.max\<close>, \<^verbatim>\<open>-\<close>, \<^verbatim>\<open>*\<close> and \<^verbatim>\<open>Math.floor\<close>.\<close>

definition js_min :: "jsnum \<Rightarrow> jsnum \<Rightarrow> jsnum" where
  "js_min a b = (if a = NaN \<or> b = NaN then NaN else if js_less b a then b else a)"

definition js_max :: "jsnum \<Rightarrow> jsnum \<Rightarrow> jsnum" where
  "js_max a b = (if a = NaN \<or> b = NaN then NaN else if js_less a b then b else a)"

fun js_sub :: "jsnum \<Rightarrow> jsnum \<Rightarrow> jsnum" where
  "js_sub (Fin a) (Fin b) = Fin (a - b)"
| "js_sub NaN _ = NaN"
| "js_sub _ NaN = NaN"
| "js_sub PosInf PosInf = NaN"
| "js_sub NegInf NegInf = NaN"
| "js_sub PosInf _ = PosInf"
| "js_sub NegInf _ = NegInf"
| "js_sub (Fin a) PosInf = NegInf"
| "js_sub (Fin a) NegInf = PosInf"

fun js_mul :: "jsnum \<Rightarrow> jsnum \<Rightarrow> jsnum" where
  "js_mul (Fin a) (Fin b) = Fin (a * b)"
| "js_mul NaN _ = NaN"
| "js_mul _ NaN = NaN"
| "js_mul (Fin a) PosInf = (if a = 0 then NaN else if 0 < a then PosInf else NegInf)"
| "js_mul (Fin a) NegInf = (if a = 0 then NaN else if 0 < a then NegInf else PosInf)"
| "js_mul PosInf (Fin b) = (if b = 0 then NaN else if 0 < b then PosInf else NegInf)"
| "js_mul NegInf (Fin b) = (if b = 0 then NaN else if 0 < b then NegInf else PosInf)"
| "js_mul PosInf PosInf = PosInf"
| "js_mul NegInf NegInf = PosInf"
| "js_mul PosInf NegInf = NegInf"
| "js_mul NegInf PosInf = NegInf"

fun js_floor :: "jsnum \<Rightarrow> jsnum" where
  "js_floor (Fin a) = Fin (of_int \<lfloor>a\<rfloor>)"
| "js_floor n = n"

section \<open>The host: the language runtime and the imported libraries\<close>

text \<open>
  What the component calls but does not define is a parameter of the model: the
  runtime's string conversions and collation, \<^verbatim>\<open>Math.random\<close>, the distinct-colour
  generator \<^verbatim>\<open>iwanthue\<close>, the gradient palettes of \<^verbatim>\<open>dicopal\<close> and the scales of
  \<^verbatim>\<open>d3-scale\<close>. A call of a library returns an array, returns nothing, or raises.
  \<^verbatim>\<open>iwanthue\<close> is randomised, so its result also depends on the number of the call.
\<close>

datatype gen_result = GenRaises | GenNothing | GenColors "string list"

record host =
  StringToNumber :: "string \<Rightarrow> jsnum"
  parseFloatString :: "string \<Rightarrow> jsnum"
  ToString :: "jsval \<Rightarrow> string"
  localeCompare :: "string \<Rightarrow> string \<Rightarrow> int"
  randomSource :: "nat \<Rightarrow> rat"
  iwanthue :: "nat \<Rightarrow> nat \<Rightarrow> gen_result"
  getSequentialColors :: "string \<Rightarrow> nat \<Rightarrow> gen_result"
  d3scale :: "string \<Rightarrow> jsnum \<Rightarrow> jsnum \<Rightarrow> jsnum \<Rightarrow> jsnum"

text \<open>\<^verbatim>\<open>Number(v)\<close>.\<close>

fun ToNumber :: "host \<Rightarrow> jsval \<Rightarrow> jsnum" where
  "ToNumber h Undefined = NaN"
| "ToNumber h Null = Fin 0"
| "ToNumber h (JBool b) = Fin (if b then 1 else 0)"
| "ToNumber h (Num n) = n"
| "ToNumber h (Str s) = StringToNumber h s"

text \<open>\<^verbatim>\<open>parseFloat(v)\<close>: the argument is converted to a string and a numeric prefix of it
  is read; a number comes back as it is, \<^verbatim>\<open>undefined\<close>, \<^verbatim>\<open>null\<close> and the booleans have no
  numeric prefix.\<close>

fun parseFloat :: "host \<Rightarrow> jsval \<Rightarrow> jsnum" where
  "parseFloat h (Num n) = n"
| "parseFloat h (Str s) = parseFloatString h s"
| "parseFloat h _ = NaN"

text \<open>A property key: a string is its own key, any other value is converted.\<close>

definition propKey :: "host \<Rightarrow> jsval \<Rightarrow> string" where
  "propKey h v = (case v of Str s \<Rightarrow> s | _ \<Rightarrow> ToString h v)"

text \<open>The \<open>k\<close>-th draw of \<^verbatim>\<open>Math.random()\<close>, a number in \<open>[0, 1)\<close>: the host's sequence
  is reduced to its fractional part, so that every host keeps the contract.\<close>

definition Math_random :: "host \<Rightarrow> nat \<Rightarrow> rat" where
  "Math_random h k = frac (randomSource h k)"

text \<open>\<^verbatim>\<open>new Set(xs)\<close>, \<^verbatim>\<open>Array.from(set)\<close>: the first occurrence of each member, in order.\<close>

definition uniq :: "'a list \<Rightarrow> 'a list" where
  "uniq xs = rev (remdups (rev xs))"

section \<open>The graph (graphology, a mixed graph without parallel edges)\<close>

datatype error = UsageGraphError | NotFoundGraphError | TypeError | GeneratorError

datatype outcome = Done | Skipped | Threw error

record edge_row =
  rsource :: string
  rtarget :: string
  rweight :: jsval

record edge_attributes =
  weight :: jsval
  color :: string
  esize :: nat

record edge =
  source :: string
  target :: string
  attributes :: edge_attributes

record graph =
  nodes :: "(string \<times> obj) list"
  edges :: "edge list"

definition hasNode :: "graph \<Rightarrow> string \<Rightarrow> bool" where
  "hasNode g n = (n \<in> fst ` set (nodes g))"

text \<open>\<^verbatim>\<open>graph.addNode(n, a)\<close> raises when the node exists.\<close>

definition addNode :: "graph \<Rightarrow> string \<Rightarrow> obj \<Rightarrow> error + graph" where
  "addNode g n a =
     (if hasNode g n then Inl UsageGraphError else Inr (g\<lparr>nodes := nodes g @ [(n, a)]\<rparr>))"

text \<open>\<^verbatim>\<open>graph.addEdge(source, target, attributes)\<close> raises when an end is not a node of the
  graph, and when the graph already has an edge from this source to this target.\<close>

definition hasEdge :: "graph \<Rightarrow> string \<Rightarrow> string \<Rightarrow> bool" where
  "hasEdge g s t = ((s, t) \<in> (\<lambda>e. (source e, target e)) ` set (edges g))"

definition addEdge :: "graph \<Rightarrow> edge \<Rightarrow> error + graph" where
  "addEdge g e =
     (if hasNode g (source e) \<and> hasNode g (target e)
      then (if hasEdge g (source e) (target e) then Inl UsageGraphError
            else Inr (g\<lparr>edges := edges g @ [e]\<rparr>))
      else Inl NotFoundGraphError)"

text \<open>\<^verbatim>\<open>try { g.addEdge(source, target, attributes); } catch {}\<close>\<close>

definition tryAddEdge :: "graph \<Rightarrow> edge \<Rightarrow> graph" where
  "tryAddEdge g e = (case addEdge g e of Inl x \<Rightarrow> g | Inr g' \<Rightarrow> g')"



section \<open>Props and state of the component\<close>

text \<open>
  Node ids are strings (graphology's keys are). \<open>onNetworkReady\<close> tells whether the
  parent passed the callback. The state holds the component's refs and state variables;
  \<open>sigmaInstance\<close> is the live graph of the renderer, when there is one. \<open>rngCount\<close> and
  \<open>iwanthueCalls\<close> count the draws of \<^verbatim>\<open>Math.random\<close> and the calls of \<^verbatim>\<open>iwanthue\<close>;
  \<open>pendingCallReady\<close> and \<open>pendingNotify\<close> count the timeouts that are scheduled and have
  not run, \<open>notifications\<close> the calls of \<^verbatim>\<open>onNetworkReady\<close> made so far.
\<close>

record props =
  edgeRows :: "edge_row list"
  metadataRows :: "obj list"
  colorBy :: string
  highlightedNode :: "string option"
  hoveredNode :: "string option"
  edgeMode :: string
  enableDynamicEdges :: bool
  onNetworkReady :: bool
  showLabels :: bool

record state =
  sigmaInstance :: "graph option"
  metadataRef :: "(string \<times> obj) list option"
  allEdgesRef :: "edge list"
  ptuPaletteRef :: "(string \<times> string) list"
  networkReadyCalledRef :: bool
  isInitialLoadRef :: bool
  communities :: "jsval list"
  palette :: "(string \<times> string) list"
  visibleComms :: "jsval list"
  highlightedComms :: "jsval list"
  isNumeric :: bool
  numericDomainRef :: "jsnum \<times> jsnum"
  sequentialPaletteName :: string
  isReversed :: bool
  numericPaletteState :: "string list"
  scaleType :: string
  handleCommunitiesRunning :: bool
  rngCount :: nat
  iwanthueCalls :: nat
  pendingCallReady :: nat
  pendingNotify :: nat
  notifications :: nat

text \<open>The state of a component that has just been created (the initial values of its
  refs and of its \<^verbatim>\<open>useState\<close> calls).\<close>

definition initialState :: state where
  "initialState =
     \<lparr>sigmaInstance = None, metadataRef = None, allEdgesRef = [], ptuPaletteRef = [],
      networkReadyCalledRef = False, isInitialLoadRef = True, communities = [],
      palette = [], visibleComms = [], highlightedComms = [], isNumeric = False,
      numericDomainRef = (Fin 0, Fin 0), sequentialPaletteName = ''Blues'',
      isReversed = False, numericPaletteState = [], scaleType = ''linear'',
      handleCommunitiesRunning = False, rngCount = 0, iwanthueCalls = 0,
      pendingCallReady = 0, pendingNotify = 0, notifications = 0\<rparr>"

section \<open>Building the graph\<close>

text \<open>The effect that builds the metadata map: \<^verbatim>\<open>if (r.id) map[r.id] = r\<close>, and nothing
  when there are no rows.\<close>

definition metadataEffect :: "host \<Rightarrow> props \<Rightarrow> state \<Rightarrow> state" where
  "metadataEffect h p st =
     (if metadataRows p = [] then st
      else st\<lparr>metadataRef := Some (foldl (\<lambda>m r. if truthy (attr r ''id'')
                                               then AList.update (propKey h (attr r ''id'')) r m
                                               else m) [] (metadataRows p))\<rparr>)"

definition mkEdge :: "edge_row \<Rightarrow> edge" where
  "mkEdge r =
     \<lparr>source = rsource r, target = rtarget r,
      attributes = \<lparr>weight = (if truthy (rweight r) then rweight r else Num (Fin 1)),
                    color = ''rgb(227,227,227)'', esize = 1\<rparr>\<rparr>"

text \<open>The attributes of the node \<open>n\<close>: \<^verbatim>\<open>metadataRef.current?.[id] ?? {}\<close>, the two
  coordinates parsed or drawn, \<^verbatim>\<open>{ ...attrs, x, y, size: 0.7, label: id }\<close>. The result
  carries the number of draws made so far.\<close>

definition nodeAttributes ::
  "host \<Rightarrow> (string \<times> obj) list option \<Rightarrow> nat \<Rightarrow> string \<Rightarrow> obj \<times> nat" where
  "nodeAttributes h meta k n =
     (let attrs = (case meta of None \<Rightarrow> []
                   | Some m \<Rightarrow> (case map_of m n of None \<Rightarrow> [] | Some r \<Rightarrow> r));
          x0 = parseFloat h (attr attrs ''x'');
          y0 = parseFloat h (attr attrs ''y'');
          x = (if isNaN x0 then Fin (Math_random h k * 10) else x0);
          k1 = (if isNaN x0 then Suc k else k);
          y = (if isNaN y0 then Fin (Math_random h k1 * 10) else y0);
          k2 = (if isNaN y0 then Suc k1 else k1)
      in (AList.update ''label'' (Str n)
            (AList.update ''size'' (Num (Fin (7 / 10)))
              (AList.update ''y'' (Num y) (AList.update ''x'' (Num x) attrs))), k2))"

fun addNodes ::
  "host \<Rightarrow> (string \<times> obj) list option \<Rightarrow> string list \<Rightarrow> graph \<Rightarrow> nat \<Rightarrow> error + graph \<times> nat"
  where
  "addNodes h meta [] g k = Inr (g, k)"
| "addNodes h meta (n # ns) g k =
     (case addNode g n (fst (nodeAttributes h meta k n)) of
        Inl e \<Rightarrow> Inl e
      | Inr g' \<Rightarrow> addNodes h meta ns g' (snd (nodeAttributes h meta k n)))"

section \<open>The palette build: \<^verbatim>\<open>handleCommunities\<close>\<close>

text \<open>\<^verbatim>\<open>r || []\<close> on the result of a generator that returned.\<close>

fun orEmpty :: "gen_result \<Rightarrow> string list" where
  "orEmpty (GenColors cs) = cs"
| "orEmpty r = []"

text \<open>\<^verbatim>\<open>cs[i] || '#888'\<close> and \<^verbatim>\<open>cs[i] ?? '#888'\<close> at an index that is a natural number;
  \<^verbatim>\<open>cs[i] ?? '#888'\<close> at an index that is any number.\<close>

definition colorOr :: "string list \<Rightarrow> nat \<Rightarrow> string" where
  "colorOr cs i = (if i < length cs \<and> cs ! i \<noteq> [] then cs ! i else ''#888'')"

definition colorNullish :: "string list \<Rightarrow> nat \<Rightarrow> string" where
  "colorNullish cs i = (if i < length cs then cs ! i else ''#888'')"

definition colorAt :: "string list \<Rightarrow> jsnum \<Rightarrow> string" where
  "colorAt cs i =
     (case i of
        Fin q \<Rightarrow> (if 0 \<le> q \<and> q = of_int \<lfloor>q\<rfloor> then colorNullish cs (nat \<lfloor>q\<rfloor>) else ''#888'')
      | _ \<Rightarrow> ''#888'')"

definition ptuValue :: "jsval \<Rightarrow> jsval" where
  "ptuValue v = (if \<not> nullish v \<and> v \<noteq> Str [] then v else Str [])"

definition ptuPalette :: "host \<Rightarrow> jsval list \<Rightarrow> string list \<Rightarrow> (string \<times> string) list" where
  "ptuPalette h ptuList ptuColors =
     foldl (\<lambda>pal (i, ptu). AList.update (propKey h ptu)
                              (if ptu = Str [] then ''#d3d3d3'' else colorOr ptuColors i) pal)
       [] (enumerate 0 ptuList)"

definition numericData :: "host \<Rightarrow> string \<Rightarrow> graph \<Rightarrow> (string \<times> jsnum) list" where
  "numericData h key g =
     filter (\<lambda>d. \<not> isNaN (snd d)) (map (\<lambda>(n, a). (n, ToNumber h (attr a key))) (nodes g))"

definition numGradientSteps :: nat where
  "numGradientSteps = 100"

text \<open>\<^verbatim>\<open>scaleLinear().domain([lo, hi]).range([0, 1])\<close> on finite numbers; its value on the
  others is the host's.\<close>

definition scaleLinear :: "host \<Rightarrow> jsnum \<Rightarrow> jsnum \<Rightarrow> jsnum \<Rightarrow> jsnum" where
  "scaleLinear h lo hi x =
     (case (lo, hi, x) of
        (Fin a, Fin b, Fin y) \<Rightarrow> (if b = a then Fin (1 / 2) else Fin ((y - a) / (b - a)))
      | _ \<Rightarrow> d3scale h ''linear'' lo hi x)"

definition scaleOf :: "host \<Rightarrow> string \<Rightarrow> jsnum \<Rightarrow> jsnum \<Rightarrow> jsnum \<Rightarrow> jsnum" where
  "scaleOf h sty minVal maxVal x =
     (if sty = ''log''
      then d3scale h ''log'' (if js_less (Fin 0) minVal then minVal else Fin (1 / 1000000)) maxVal x
      else if sty = ''sqrt'' then d3scale h ''sqrt'' minVal maxVal x
      else if sty = ''pow'' then d3scale h ''pow'' minVal maxVal x
      else scaleLinear h minVal maxVal x)"

text \<open>\<^verbatim>\<open>Math.floor(Math.max(0, Math.min(1, scale(d.v))) * (numGradientSteps - 1))\<close>\<close>

definition colorIndex :: "host \<Rightarrow> string \<Rightarrow> jsnum \<Rightarrow> jsnum \<Rightarrow> jsnum \<Rightarrow> jsnum" where
  "colorIndex h sty minVal maxVal v =
     js_floor (js_mul (js_max (Fin 0) (js_min (Fin 1) (scaleOf h sty minVal maxVal v)))
                      (Fin (of_nat (numGradientSteps - 1))))"

text \<open>The body of \<^verbatim>\<open>numericData.forEach\<close>: the colour of one node.\<close>

definition nodeColor :: "host \<Rightarrow> string \<Rightarrow> string list \<Rightarrow> jsnum \<Rightarrow> jsnum \<Rightarrow> jsnum \<Rightarrow> string" where
  "nodeColor h sty palColors minVal maxVal v =
     (if js_sub maxVal minVal = Fin 0 then colorNullish palColors (numGradientSteps div 2)
      else colorAt palColors (colorIndex h sty minVal maxVal v))"

text \<open>What one run of the build hands to the five state setters.\<close>

record publication =
  newIsNumeric :: bool
  newPalette :: "(string \<times> string) list"
  newCommunities :: "jsval list"
  newVisibleComms :: "jsval list"
  newNumericPaletteState :: "string list option"

text \<open>The numeric branch. A palette that is \<^verbatim>\<open>undefined\<close> raises a \<^verbatim>\<open>TypeError\<close> where it
  is first read: at the spread of the reversal, or at the first node.\<close>

definition numericBranch ::
  "host \<Rightarrow> state \<Rightarrow> (string \<times> jsnum) list \<Rightarrow> state \<times> (error + publication)" where
  "numericBranch h st nd =
     (let minVal = foldl js_min PosInf (map snd nd);
          maxVal = foldl js_max NegInf (map snd nd);
          st1 = st\<lparr>numericDomainRef := (minVal, maxVal)\<rparr>
      in case getSequentialColors h (sequentialPaletteName st) numGradientSteps of
           GenRaises \<Rightarrow> (st1, Inl GeneratorError)
         | GenNothing \<Rightarrow>
             (st1, if isReversed st \<or> nd \<noteq> [] then Inl TypeError
                   else Inr \<lparr>newIsNumeric = True, newPalette = [], newCommunities = [],
                             newVisibleComms = [], newNumericPaletteState = None\<rparr>)
         | GenColors cs \<Rightarrow>
             (st1, Inr \<lparr>newIsNumeric = True,
                        newPalette = foldl (\<lambda>m (n, v). AList.update n
                            (nodeColor h (scaleType st) (if isReversed st then rev cs else cs)
                               minVal maxVal v) m) [] nd,
                        newCommunities = [], newVisibleComms = [],
                        newNumericPaletteState = Some (if isReversed st then rev cs else cs)\<rparr>))"

text \<open>The Fisher-Yates loop \<^verbatim>\<open>for (let i = n - 1; i > 0; i--)\<close>, from the index \<open>i\<close> down,
  with the number of draws made so far.\<close>

fun shuffle :: "host \<Rightarrow> nat \<Rightarrow> nat \<Rightarrow> string list \<Rightarrow> string list \<times> nat" where
  "shuffle h 0 k xs = (xs, k)"
| "shuffle h (Suc i) k xs =
     shuffle h i (Suc k)
       (xs[Suc i := xs ! nat \<lfloor>Math_random h k * of_nat (Suc i + 1)\<rfloor>,
           nat \<lfloor>Math_random h k * of_nat (Suc i + 1)\<rfloor> := xs ! Suc i])"

text \<open>\<^verbatim>\<open>xs.sort((a, b) => a.localeCompare(b))\<close>, a stable sort. An array of fewer than two
  members is not compared. A member that is not a string has no \<^verbatim>\<open>localeCompare\<close>: the
  call raises a \<^verbatim>\<open>TypeError\<close>. (When strings and other values are mixed, whether the
  engine makes a failing call depends on the order of its comparisons; the model takes
  the failing outcome.)\<close>

fun insortBy :: "('a \<Rightarrow> 'a \<Rightarrow> int) \<Rightarrow> 'a \<Rightarrow> 'a list \<Rightarrow> 'a list" where
  "insortBy cmp x [] = [x]"
| "insortBy cmp x (y # ys) = (if cmp x y \<le> 0 then x # y # ys else y # insortBy cmp x ys)"

definition sortBy :: "('a \<Rightarrow> 'a \<Rightarrow> int) \<Rightarrow> 'a list \<Rightarrow> 'a list" where
  "sortBy cmp xs = foldr (insortBy cmp) xs []"

fun isStr :: "jsval \<Rightarrow> bool" where
  "isStr (Str s) = True"
| "isStr v = False"

definition sortComms :: "host \<Rightarrow> jsval list \<Rightarrow> error + jsval list" where
  "sortComms h xs =
     (if length xs < 2 then Inr xs
      else if list_all isStr xs
      then Inr (sortBy (\<lambda>a b. localeCompare h (propKey h a) (propKey h b)) xs)
      else Inl TypeError)"

definition categoricalPalette :: "host \<Rightarrow> jsval list \<Rightarrow> string list \<Rightarrow> (string \<times> string) list"
  where
  "categoricalPalette h comms colorsCat =
     foldl (\<lambda>pal (i, comm). AList.update (propKey h comm)
                               (if comm = Str [] then ''#d3d3d3'' else colorNullish colorsCat i) pal)
       [] (enumerate 0 comms)"

definition categoricalBranch ::
  "host \<Rightarrow> string \<Rightarrow> graph \<Rightarrow> state \<Rightarrow> state \<times> (error + publication)" where
  "categoricalBranch h key g st =
     (let allComms = uniq (filter (\<lambda>v. \<not> nullish v) (map (\<lambda>(n, a). attr a key) (nodes g)));
          st1 = st\<lparr>iwanthueCalls := Suc (iwanthueCalls st)\<rparr>
      in case iwanthue h (iwanthueCalls st) (length allComms) of
           GenRaises \<Rightarrow> (st1, Inl GeneratorError)
         | r \<Rightarrow>
             (let sh = shuffle h (length (orEmpty r) - 1) (rngCount st) (orEmpty r);
                  st2 = st1\<lparr>rngCount := snd sh\<rparr>
              in case sortComms h (filter (\<lambda>c. c \<noteq> Str []) allComms) of
                   Inl e \<Rightarrow> (st2, Inl e)
                 | Inr nonMissing \<Rightarrow>
                     (let comms = nonMissing @ (if Str [] \<in> set allComms then [Str []] else [])
                      in (st2, Inr \<lparr>newIsNumeric = False,
                                    newPalette = categoricalPalette h comms (fst sh),
                                    newCommunities = comms,
                                    newVisibleComms = uniq comms,
                                    newNumericPaletteState = None\<rparr>))))"

text \<open>The \<^verbatim>\<open>try\<close> block. The cluster-label palette is built and stored first; then the key
  is classified and one of the three branches prepares the publication. (The keys of
  \<open>ptuPal\<close> are listed in insertion order.)\<close>

definition handleCommunitiesBody ::
  "host \<Rightarrow> props \<Rightarrow> graph \<Rightarrow> state \<Rightarrow> state \<times> (error + publication)" where
  "handleCommunitiesBody h p g st =
     (let ptuList = uniq (map (\<lambda>(n, a). ptuValue (attr a ''new_PTU'')) (nodes g));
          st0 = st\<lparr>iwanthueCalls := Suc (iwanthueCalls st)\<rparr>
      in case iwanthue h (iwanthueCalls st) (length ptuList) of
           GenRaises \<Rightarrow> (st0, Inl GeneratorError)
         | r \<Rightarrow>
             (let ptuPal = ptuPalette h ptuList (orEmpty r);
                  st1 = st0\<lparr>ptuPaletteRef := ptuPal\<rparr>;
                  nd = numericData h (colorBy p) g;
                  numeric = (length nd = length (nodes g))
              in if colorBy p = ''new_PTU''
                 then (st1, Inr \<lparr>newIsNumeric = False, newPalette = ptuPal,
                                 newCommunities = map (\<lambda>kv. Str (fst kv)) ptuPal,
                                 newVisibleComms = uniq (map (\<lambda>kv. Str (fst kv)) ptuPal),
                                 newNumericPaletteState = None\<rparr>)
                 else if numeric then numericBranch h st1 nd
                 else categoricalBranch h (colorBy p) g st1))"

text \<open>The five setters at the end of the \<^verbatim>\<open>try\<close> block.\<close>

definition publish :: "publication \<Rightarrow> state \<Rightarrow> state" where
  "publish pub st =
     (case newNumericPaletteState pub of
        None \<Rightarrow> st\<lparr>isNumeric := newIsNumeric pub, palette := newPalette pub,
                   communities := newCommunities pub, visibleComms := newVisibleComms pub\<rparr>
      | Some cs \<Rightarrow> st\<lparr>isNumeric := newIsNumeric pub, palette := newPalette pub,
                      communities := newCommunities pub, visibleComms := newVisibleComms pub,
                      numericPaletteState := cs\<rparr>)"

text \<open>The guard, the \<^verbatim>\<open>try\<close> block and its \<^verbatim>\<open>finally\<close>.\<close>

definition handleCommunities :: "host \<Rightarrow> props \<Rightarrow> graph \<Rightarrow> state \<Rightarrow> state \<times> outcome" where
  "handleCommunities h p g st =
     (if handleCommunitiesRunning st then (st, Skipped)
      else case handleCommunitiesBody h p g (st\<lparr>handleCommunitiesRunning := True\<rparr>) of
             (st1, Inl e) \<Rightarrow> (st1\<lparr>handleCommunitiesRunning := False\<rparr>, Threw e)
           | (st1, Inr pub) \<Rightarrow> ((publish pub st1)\<lparr>handleCommunitiesRunning := False\<rparr>, Done))"

text \<open>\<^verbatim>\<open>renderGraph\<close> creates the renderer on the graph and runs the palette build (the
  container is mounted when an effect runs); \<^verbatim>\<open>loadFromEdgeList\<close> builds the graph from
  the rows.\<close>

definition renderGraph :: "host \<Rightarrow> props \<Rightarrow> graph \<Rightarrow> state \<Rightarrow> state \<times> outcome" where
  "renderGraph h p g st = handleCommunities h p g (st\<lparr>sigmaInstance := Some g\<rparr>)"

definition nodeSet :: "edge list \<Rightarrow> string list" where
  "nodeSet es = uniq (concat (map (\<lambda>e. [source e, target e]) es))"

definition loadFromEdgeList :: "host \<Rightarrow> props \<Rightarrow> state \<Rightarrow> state \<times> outcome" where
  "loadFromEdgeList h p st =
     (case addNodes h (metadataRef st) (nodeSet (map mkEdge (edgeRows p)))
             \<lparr>nodes = [], edges = []\<rparr> (rngCount st) of
        Inl e \<Rightarrow> (st\<lparr>allEdgesRef := map mkEdge (edgeRows p)\<rparr>, Threw e)
      | Inr (g, k) \<Rightarrow>
          renderGraph h p
            (if edgeMode p = ''all'' then foldl tryAddEdge g (map mkEdge (edgeRows p)) else g)
            (st\<lparr>allEdgesRef := map mkEdge (edgeRows p), rngCount := k\<rparr>))"

section \<open>The effects\<close>

text \<open>The colour-key effect runs the build on the live graph.\<close>

definition colorByEffect :: "host \<Rightarrow> props \<Rightarrow> state \<Rightarrow> state \<times> outcome" where
  "colorByEffect h p st =
     (case sigmaInstance st of None \<Rightarrow> (st, Done) | Some g \<Rightarrow> handleCommunities h p g st)"

text \<open>The visibility effect and the toggle of one value.\<close>

definition visibilityEffect :: "props \<Rightarrow> state \<Rightarrow> state" where
  "visibilityEffect p st =
     (case sigmaInstance st of
        None \<Rightarrow> st
      | Some g \<Rightarrow>
          if palette st = [] then st
          else if isNumeric st then st
          else st\<lparr>sigmaInstance := Some (g\<lparr>nodes := map (\<lambda>(n, a).
                    (n, AList.update ''hidden''
                          (JBool (\<not> nullish (attr a (colorBy p))
                                  \<and> attr a (colorBy p) \<notin> set (visibleComms st))) a))
                    (nodes g)\<rparr>)\<rparr>)"

definition toggleComm :: "jsval \<Rightarrow> state \<Rightarrow> state" where
  "toggleComm comm st =
     st\<lparr>visibleComms := (if comm \<in> set (visibleComms st) then removeAll comm (visibleComms st)
                          else visibleComms st @ [comm])\<rparr>"



text \<open>A node is displayed unless its \<open>hidden\<close> attribute is truthy.\<close>

definition displayed :: "obj \<Rightarrow> bool" where
  "displayed a = (\<not> truthy (attr a ''hidden''))"






section \<open>The notification that the network is ready\<close>

text \<open>The effect on a change of the rows, the effect on a change of the palette, and
  \<^verbatim>\<open>callNetworkReady\<close>. A \<^verbatim>\<open>setTimeout\<close> adds a pending timeout; a timeout that runs is
  removed and its body is run.\<close>

definition resetEffect :: "state \<Rightarrow> state" where
  "resetEffect st = st\<lparr>networkReadyCalledRef := False, isInitialLoadRef := True\<rparr>"

definition networkReadyEffect :: "state \<Rightarrow> state" where
  "networkReadyEffect st =
     (if isInitialLoadRef st \<and> palette st \<noteq> [] \<and> sigmaInstance st \<noteq> None
      then st\<lparr>isInitialLoadRef := False, pendingCallReady := Suc (pendingCallReady st)\<rparr>
      else st)"

definition callNetworkReady :: "props \<Rightarrow> state \<Rightarrow> state" where
  "callNetworkReady p st =
     (if \<not> networkReadyCalledRef st \<and> onNetworkReady p
      then st\<lparr>networkReadyCalledRef := True, pendingNotify := Suc (pendingNotify st)\<rparr>
      else st)"

text \<open>
  What can happen to the notification machinery, one event at a time: the rows change;
  a build publishes a palette (the renderer exists from the first build on); a pending
  timeout of the palette effect runs; a pending timeout of \<^verbatim>\<open>callNetworkReady\<close> runs and
  calls \<^verbatim>\<open>onNetworkReady\<close>.
\<close>

datatype event =
  DataChange
| PalettePublished "(string \<times> string) list"
| CallReadyTimeout
| NotifyTimeout

fun step :: "props \<Rightarrow> state \<Rightarrow> event \<Rightarrow> state" where
  "step p st DataChange = resetEffect st"
| "step p st (PalettePublished pal) = networkReadyEffect (st\<lparr>palette := pal\<rparr>)"
| "step p st CallReadyTimeout =
     (if pendingCallReady st = 0 then st
      else callNetworkReady p (st\<lparr>pendingCallReady := pendingCallReady st - 1\<rparr>))"
| "step p st NotifyTimeout =
     (if pendingNotify st = 0 then st
      else st\<lparr>pendingNotify := pendingNotify st - 1, notifications := Suc (notifications st)\<rparr>)"

definition run :: "props \<Rightarrow> state \<Rightarrow> event list \<Rightarrow> state" where
  "run p st evs = foldl (step p) st evs"

fun isDataChange :: "event \<Rightarrow> bool" where
  "isDataChange DataChange = True"
| "isDataChange e = False"

fun isSuccessfulPublication :: "event \<Rightarrow> bool" where
  "isSuccessfulPublication (PalettePublished pal) = (pal \<noteq> [])"
| "isSuccessfulPublication e = False"

text \<open>All pending timeouts run: those of the palette effect, then those they scheduled.\<close>

definition settle :: "props \<Rightarrow> state \<Rightarrow> state" where
  "settle p st =
     run p (run p st (replicate (pendingCallReady st) CallReadyTimeout))
       (replicate (pendingNotify (run p st (replicate (pendingCallReady st) CallReadyTimeout)))
          NotifyTimeout)"

section \<open>Concrete inputs\<close>

text \<open>
  A host to run the model on: its string conversions are exact on strings of decimal
  digits and on strings without a digit, its collation compares character codes, every
  draw of \<^verbatim>\<open>Math.random\<close> is one half, the generator returns up to four fixed colours,
  the gradient has two tones. Its \<open>ToString\<close> is not used: the keys below are strings.
\<close>

fun indexIn :: "char \<Rightarrow> string \<Rightarrow> nat \<Rightarrow> nat option" where
  "indexIn c [] i = None"
| "indexIn c (d # ds) i = (if c = d then Some i else indexIn c ds (Suc i))"

definition digitValue :: "char \<Rightarrow> nat option" where
  "digitValue c = indexIn c ''0123456789'' 0"

fun parseDigits :: "nat \<Rightarrow> string \<Rightarrow> jsnum" where
  "parseDigits acc [] = Fin (of_nat acc)"
| "parseDigits acc (c # cs) =
     (case digitValue c of None \<Rightarrow> NaN | Some d \<Rightarrow> parseDigits (10 * acc + d) cs)"

fun lexCompare :: "string \<Rightarrow> string \<Rightarrow> int" where
  "lexCompare [] [] = 0"
| "lexCompare [] (y # ys) = - 1"
| "lexCompare (x # xs) [] = 1"
| "lexCompare (x # xs) (y # ys) =
     (if (of_char x :: nat) < of_char y then - 1
      else if (of_char y :: nat) < of_char x then 1 else lexCompare xs ys)"

definition exampleHost :: host where
  "exampleHost =
     \<lparr>StringToNumber = parseDigits 0,
      parseFloatString = (\<lambda>s. if s = [] then NaN else parseDigits 0 s),
      ToString = (\<lambda>v. ''?''),
      localeCompare = lexCompare,
      randomSource = (\<lambda>k. 1 / 2),
      iwanthue = (\<lambda>k n. GenColors (take n [''#e6194b'', ''#3cb44b'', ''#4363d8'', ''#f58231''])),
      getSequentialColors =
        (\<lambda>nm n. GenColors (map (\<lambda>i. if i < 50 then ''#deebf7'' else ''#3182bd'') [0..<n])),
      d3scale = (\<lambda>sty lo hi x. NaN)\<rparr>"

text \<open>The same host with a generator that raises, and with one that returns nothing.\<close>

definition raisingHost :: host where
  "raisingHost = exampleHost\<lparr>iwanthue := (\<lambda>k n. GenRaises)\<rparr>"


text \<open>Three nodes \<open>n1\<close>, \<open>n2\<close>, \<open>n3\<close> with a group and a score, two edges.\<close>

definition exampleProps :: props where
  "exampleProps =
     \<lparr>edgeRows = [\<lparr>rsource = ''n1'', rtarget = ''n2'', rweight = Undefined\<rparr>,
                  \<lparr>rsource = ''n2'', rtarget = ''n3'', rweight = Num (Fin 2)\<rparr>],
      metadataRows = [[(''id'', Str ''n1''), (''group'', Str ''B''), (''score'', Num (Fin 1))],
                      [(''id'', Str ''n2''), (''group'', Str ''A''), (''score'', Num (Fin 5))],
                      [(''id'', Str ''n3''), (''group'', Str ''A''), (''score'', Num (Fin 10))]],
      colorBy = ''group'', highlightedNode = None, hoveredNode = None,
      edgeMode = ''none'', enableDynamicEdges = True, onNetworkReady = True,
      showLabels = False\<rparr>"

text \<open>The component after its first load of these rows.\<close>

definition exampleLoaded :: state where
  "exampleLoaded =
     fst (loadFromEdgeList exampleHost exampleProps
            (metadataEffect exampleHost exampleProps initialState))"

definition exampleGraph :: graph where
  "exampleGraph =
     \<lparr>nodes =
        [(''n1'', [(''id'', Str ''n1''), (''group'', Str ''B''), (''score'', Num (Fin 1)),
                   (''x'', Num (Fin 5)), (''y'', Num (Fin 5)), (''size'', Num (Fin (7 / 10))),
                   (''label'', Str ''n1'')]),
         (''n2'', [(''id'', Str ''n2''), (''group'', Str ''A''), (''score'', Num (Fin 5)),
                   (''x'', Num (Fin 5)), (''y'', Num (Fin 5)), (''size'', Num (Fin (7 / 10))),
                   (''label'', Str ''n2'')]),
         (''n3'', [(''id'', Str ''n3''), (''group'', Str ''A''), (''score'', Num (Fin 10)),
                   (''x'', Num (Fin 5)), (''y'', Num (Fin 5)), (''size'', Num (Fin (7 / 10))),
                   (''label'', Str ''n3'')])],
      edges = []\<rparr>"

text \<open>The same rows with one more edge, to a node \<open>n4\<close> that has no metadata row, and
  one more metadata row, of an id \<open>n9\<close> that no edge names.\<close>

definition sparseProps :: props where
  "sparseProps =
     exampleProps\<lparr>edgeRows := edgeRows exampleProps
                     @ [\<lparr>rsource = ''n3'', rtarget = ''n4'', rweight = Undefined\<rparr>],
                   metadataRows := metadataRows exampleProps
                     @ [[(''id'', Str ''n9''), (''group'', Str ''C'')]]\<rparr>"

definition sparseLoaded :: state where
  "sparseLoaded =
     fst (loadFromEdgeList exampleHost sparseProps
            (metadataEffect exampleHost sparseProps initialState))"

definition sparseGraph :: graph where
  "sparseGraph =
     \<lparr>nodes = nodes exampleGraph
               @ [(''n4'', [(''x'', Num (Fin 5)), (''y'', Num (Fin 5)),
                            (''size'', Num (Fin (7 / 10))), (''label'', Str ''n4'')])],
      edges = []\<rparr>"

definition scoreProps :: props where
  "scoreProps = exampleProps\<lparr>colorBy := ''score''\<rparr>"




text \<open>The group \<open>A\<close> is toggled off in categorical mode; then the colour key changes to the
  numeric \<open>score\<close>, the build publishes and the visibility effect runs again.\<close>

definition hiddenThenNumeric :: state where
  "hiddenThenNumeric =
     visibilityEffect scoreProps
       (fst (colorByEffect exampleHost scoreProps
          (visibilityEffect exampleProps (toggleComm (Str ''A'') exampleLoaded))))"





section \<open>Basic facts\<close>

lemma floor_rat_numeral [simp]:
  "\<lfloor>numeral a / numeral b :: rat\<rfloor> = numeral a div numeral b"
  using floor_divide_of_int_eq [of "numeral a" "numeral b", where ?'a = rat] by simp

lemma attr_update_same: "attr (AList.update k v a) k = v"
  by (simp add: attr_def update_conv')

lemma attr_update_other: "k' \<noteq> k \<Longrightarrow> attr (AList.update k v a) k' = attr a k'"
  by (simp add: attr_def update_conv')


lemma exampleLoaded_palette: "palette exampleLoaded = [(''A'', ''#e6194b''), (''B'', ''#3cb44b'')]"
  by code_simp

lemma sparseLoaded_graph: "sigmaInstance sparseLoaded = Some sparseGraph"
  by code_simp

lemma sparseLoaded_palette: "palette sparseLoaded = [(''A'', ''#e6194b''), (''B'', ''#3cb44b'')]"
  by code_simp

lemma handleCommunitiesBody_sigmaInstance:
  "sigmaInstance (fst (handleCommunitiesBody h p g st)) = sigmaInstance st"
  by (simp add: handleCommunitiesBody_def numericBranch_def categoricalBranch_def Let_def
      split: gen_result.splits sum.splits)

lemma handleCommunities_sigmaInstance:
  "sigmaInstance (fst (handleCommunities h p g st)) = sigmaInstance st"
proof (cases "handleCommunitiesBody h p g (st\<lparr>handleCommunitiesRunning := True\<rparr>)")
  case (Pair st1 r)
  with handleCommunitiesBody_sigmaInstance [of h p g "st\<lparr>handleCommunitiesRunning := True\<rparr>"]
  show ?thesis
    by (cases r) (simp_all add: handleCommunities_def publish_def split: option.splits)
qed

lemma handleCommunitiesBody_allEdgesRef:
  "allEdgesRef (fst (handleCommunitiesBody h p g st)) = allEdgesRef st"
  by (simp add: handleCommunitiesBody_def numericBranch_def categoricalBranch_def Let_def
      split: gen_result.splits sum.splits)

lemma handleCommunities_allEdgesRef:
  "allEdgesRef (fst (handleCommunities h p g st)) = allEdgesRef st"
proof (cases "handleCommunitiesBody h p g (st\<lparr>handleCommunitiesRunning := True\<rparr>)")
  case (Pair st1 r)
  with handleCommunitiesBody_allEdgesRef [of h p g "st\<lparr>handleCommunitiesRunning := True\<rparr>"]
  show ?thesis
    by (cases r) (simp_all add: handleCommunities_def publish_def split: option.splits)
qed

lemma addNodes_Inr:
  "distinct ns \<Longrightarrow> set ns \<inter> fst ` set (nodes g) = {} \<Longrightarrow>
   \<exists>g' k'. addNodes h meta ns g k = Inr (g', k')
      \<and> map fst (nodes g') = map fst (nodes g) @ ns
      \<and> edges g' = edges g
      \<and> (\<forall>na \<in> set (nodes g'). na \<in> set (nodes g)
             \<or> (\<exists>k0. snd na = fst (nodeAttributes h meta k0 (fst na))))"
proof (induction ns arbitrary: g k)
  case Nil
  then show ?case by simp
next
  case (Cons n ns)
  let ?a = "fst (nodeAttributes h meta k n)"
  let ?g = "g\<lparr>nodes := nodes g @ [(n, ?a)]\<rparr>"
  from Cons.prems have fresh: "\<not> hasNode g n" by (auto simp: hasNode_def)
  from Cons.prems have d: "distinct ns" and disj: "set ns \<inter> fst ` set (nodes ?g) = {}"
    by auto
  from Cons.IH [OF d disj, of "snd (nodeAttributes h meta k n)"]
  obtain g' k' where r: "addNodes h meta ns ?g (snd (nodeAttributes h meta k n)) = Inr (g', k')"
    and m: "map fst (nodes g') = map fst (nodes ?g) @ ns"
    and e: "edges g' = edges ?g"
    and a: "\<forall>na \<in> set (nodes g'). na \<in> set (nodes ?g)
             \<or> (\<exists>k0. snd na = fst (nodeAttributes h meta k0 (fst na)))"
    by blast
  have "addNodes h meta (n # ns) g k = Inr (g', k')"
    using fresh r by (simp add: addNode_def)
  moreover have "map fst (nodes g') = map fst (nodes g) @ n # ns" using m by simp
  moreover have "edges g' = edges g" using e by simp
  moreover have "\<forall>na \<in> set (nodes g'). na \<in> set (nodes g)
             \<or> (\<exists>k0. snd na = fst (nodeAttributes h meta k0 (fst na)))"
    using a by fastforce
  ultimately show ?case by blast
qed

lemma set_uniq [simp]: "set (uniq xs) = set xs"
  by (simp add: uniq_def)

lemma distinct_uniq [simp]: "distinct (uniq xs)"
  by (simp add: uniq_def)

lemma set_nodeSet: "set (nodeSet es) = source ` set es \<union> target ` set es"
  by (auto simp: nodeSet_def)

lemma tryAddEdge_nodes [simp]: "nodes (tryAddEdge g e) = nodes g"
  by (simp add: tryAddEdge_def addEdge_def)

lemma foldl_tryAddEdge_nodes [simp]: "nodes (foldl tryAddEdge g es) = nodes g"
  by (induction es arbitrary: g) simp_all

lemma frac_bounds: "0 \<le> Math_random h k * 10 \<and> Math_random h k * 10 < 10"
  using frac_ge_0 [of "randomSource h k"] frac_lt_1 [of "randomSource h k"]
  by (simp add: Math_random_def)

lemma nodeAttributes_no_metadata:
  "(case meta of None \<Rightarrow> None | Some m \<Rightarrow> map_of m n) = None \<Longrightarrow>
   \<exists>x y. fst (nodeAttributes h meta k n)
            = [(''x'', Num (Fin x)), (''y'', Num (Fin y)), (''size'', Num (Fin (7 / 10))),
               (''label'', Str n)]
        \<and> 0 \<le> x \<and> x < 10 \<and> 0 \<le> y \<and> y < 10"
  using frac_bounds [of h k] frac_bounds [of h "Suc k"]
  by (auto simp: nodeAttributes_def attr_def isNaN_def split: option.splits)


lemma hasNode_tryAddEdge [simp]: "hasNode (tryAddEdge g e) n = hasNode g n"
  by (simp add: hasNode_def)


lemma run_Nil [simp]: "run p st [] = st"
  by (simp add: run_def)

lemma run_Cons [simp]: "run p st (e # evs) = run p (step p st e) evs"
  by (simp add: run_def)

lemma run_append: "run p st (xs @ ys) = run p (run p st xs) ys"
  by (simp add: run_def)

lemma run_callReady:
  "n \<le> pendingCallReady st \<Longrightarrow>
   notifications (run p st (replicate n CallReadyTimeout)) = notifications st
   \<and> pendingNotify (run p st (replicate n CallReadyTimeout))
       = pendingNotify st
         + (if \<not> networkReadyCalledRef st \<and> onNetworkReady p \<and> 0 < n then 1 else 0)"
proof (induction n arbitrary: st)
  case 0
  then show ?case by simp
next
  case (Suc n)
  let ?st = "step p st CallReadyTimeout"
  from Suc.prems have le: "n \<le> pendingCallReady ?st"
    by (auto simp: callNetworkReady_def)
  from Suc.IH [OF le] Suc.prems show ?case
    by (simp add: callNetworkReady_def)
qed

lemma run_notify:
  "n \<le> pendingNotify st \<Longrightarrow>
   notifications (run p st (replicate n NotifyTimeout)) = notifications st + n"
proof (induction n arbitrary: st)
  case 0
  then show ?case by simp
next
  case (Suc n)
  from Suc.prems have le: "n \<le> pendingNotify (step p st NotifyTimeout)"
    by simp
  from Suc.IH [OF le] Suc.prems show ?case
    by simp
qed

lemma notifications_settle:
  "notifications (settle p st)
     = notifications st + pendingNotify st
       + (if \<not> networkReadyCalledRef st \<and> onNetworkReady p \<and> 0 < pendingCallReady st
          then 1 else 0)"
  using run_callReady [of "pendingCallReady st" st p]
    run_notify [of "pendingNotify (run p st (replicate (pendingCallReady st) CallReadyTimeout))"
                   "run p st (replicate (pendingCallReady st) CallReadyTimeout)" p]
  by (simp add: settle_def)

lemma step_sigmaInstance [simp]: "sigmaInstance (step p st e) = sigmaInstance st"
  by (cases e) (simp_all add: resetEffect_def networkReadyEffect_def callNetworkReady_def)

lemma notifications_same_load:
  "onNetworkReady p \<Longrightarrow> sigmaInstance st \<noteq> None \<Longrightarrow> \<not> list_ex isDataChange evs \<Longrightarrow>
   notifications (settle p (run p st evs))
     = notifications st + pendingNotify st
       + (if \<not> networkReadyCalledRef st
             \<and> (0 < pendingCallReady st
                 \<or> (isInitialLoadRef st \<and> list_ex isSuccessfulPublication evs))
          then 1 else 0)"
proof (induction evs arbitrary: st)
  case Nil
  then show ?case by (simp add: notifications_settle)
next
  case (Cons e evs)
  from Cons.prems have nd: "\<not> list_ex isDataChange evs" and e: "\<not> isDataChange e"
    by simp_all
  from Cons.prems have sg: "sigmaInstance (step p st e) \<noteq> None"
    by simp
  note IH = Cons.IH [OF Cons.prems(1) sg nd]
  show ?case
  proof (cases e)
    case DataChange
    with e show ?thesis by simp
  next
    case (PalettePublished pal)
    with IH Cons.prems(2) show ?thesis
      by (simp add: networkReadyEffect_def)
  next
    case CallReadyTimeout
    with IH Cons.prems(1) show ?thesis
      by (simp add: callNetworkReady_def)
  next
    case NotifyTimeout
    with IH show ?thesis
      by simp
  qed
qed

lemma notifications_le_settle: "notifications st \<le> notifications (settle p st)"
  by (simp add: notifications_settle)

lemma step_potential:
  "notifications (step p st e) + pendingNotify (step p st e) + pendingCallReady (step p st e)
     + (if isInitialLoadRef (step p st e) then 1 else 0)
   \<le> notifications st + pendingNotify st + pendingCallReady st
     + (if isInitialLoadRef st then 1 else 0) + (if isDataChange e then 1 else 0)"
  by (cases e) (simp_all add: resetEffect_def networkReadyEffect_def callNetworkReady_def)

lemma run_potential:
  "notifications (run p st evs) + pendingNotify (run p st evs) + pendingCallReady (run p st evs)
     + (if isInitialLoadRef (run p st evs) then 1 else 0)
   \<le> notifications st + pendingNotify st + pendingCallReady st
     + (if isInitialLoadRef st then 1 else 0) + length (filter isDataChange evs)"
proof (induction evs arbitrary: st)
  case Nil
  then show ?case by simp
next
  case (Cons e evs)
  from Cons.IH [of "step p st e"] step_potential [of p st e] show ?case
    by (simp split: if_splits)
qed








lemma publish_fields [simp]:
  "isNumeric (publish pub st) = newIsNumeric pub"
  "palette (publish pub st) = newPalette pub"
  "communities (publish pub st) = newCommunities pub"
  "visibleComms (publish pub st) = newVisibleComms pub"
  by (simp_all add: publish_def split: option.splits)

lemma visibilityEffect_numeric: "isNumeric st \<Longrightarrow> visibilityEffect p st = st"
  by (simp add: visibilityEffect_def split: option.splits)

lemma js_min_Fin [simp]: "js_min (Fin a) (Fin b) = Fin (min a b)"
  by (simp add: js_min_def min_def)

lemma js_max_Fin [simp]: "js_max (Fin a) (Fin b) = Fin (max a b)"
  by (simp add: js_max_def max_def)













lemma publish_numericDomainRef [simp]:
  "numericDomainRef (publish pub st) = numericDomainRef st"
  by (simp add: publish_def split: option.splits)






lemma set_insortBy [simp]: "set (insortBy cmp x ys) = insert x (set ys)"
  by (induction ys) auto

lemma set_sortBy [simp]: "set (sortBy cmp xs) = set xs"
  by (induction xs) (simp_all add: sortBy_def)





















lemma colorOr_range: "colorOr cs i = ''#888'' \<or> colorOr cs i \<in> set cs"
  by (simp add: colorOr_def)



















section \<open>The re-entrancy guard\<close>

lemma handleCommunitiesBody_running:
  "handleCommunitiesRunning (fst (handleCommunitiesBody h p g st)) = handleCommunitiesRunning st"
  by (simp add: handleCommunitiesBody_def numericBranch_def categoricalBranch_def Let_def
      split: gen_result.splits sum.splits)

lemma handleCommunities_idle:
  "\<not> handleCommunitiesRunning st \<Longrightarrow>
     \<not> handleCommunitiesRunning (fst (handleCommunities h p g st))"
  by (simp add: handleCommunities_def split: prod.splits sum.splits)

lemma handleCommunities_not_skipped:
  "\<not> handleCommunitiesRunning st \<Longrightarrow> snd (handleCommunities h p g st) \<noteq> Skipped"
  by (simp add: handleCommunities_def split: prod.splits sum.splits)

lemma builds_idle:
  "\<not> handleCommunitiesRunning st \<Longrightarrow>
     \<not> handleCommunitiesRunning
         (foldl (\<lambda>s c. fst (handleCommunities (fst c) (fst (snd c)) (snd (snd c)) s)) st cs)"
  by (induction cs arbitrary: st) (simp_all add: handleCommunities_idle)

text \<open>
  C10. The guard is Idle after every run of the palette build, whatever the host does
  (its generators may raise): starting Idle, after any sequence of runs the guard is Idle,
  and the next run is not skipped and leaves the guard Idle again.
\<close>

theorem guard_idle_after_every_build:
  assumes "\<not> handleCommunitiesRunning st"
  shows "\<not> handleCommunitiesRunning
           (foldl (\<lambda>s c. fst (handleCommunities (fst c) (fst (snd c)) (snd (snd c)) s)) st cs)
         \<and> snd (handleCommunities h p g
                 (foldl (\<lambda>s c. fst (handleCommunities (fst c) (fst (snd c)) (snd (snd c)) s)) st cs))
             \<noteq> Skipped
         \<and> \<not> handleCommunitiesRunning (fst (handleCommunities h p g
                 (foldl (\<lambda>s c. fst (handleCommunities (fst c) (fst (snd c)) (snd (snd c)) s)) st cs)))"
  using assms
  by (simp add: builds_idle handleCommunities_idle handleCommunities_not_skipped)

theorem guard_idle_after_every_build_witness:
  "\<not> handleCommunitiesRunning initialState
   \<and> snd (handleCommunities raisingHost exampleProps exampleGraph initialState)
       = Threw GeneratorError
   \<and> \<not> handleCommunitiesRunning
         (fst (handleCommunities raisingHost exampleProps exampleGraph initialState))
   \<and> snd (handleCommunities exampleHost exampleProps exampleGraph
            (fst (handleCommunities raisingHost exampleProps exampleGraph initialState)))
       \<noteq> Skipped"
proof -
  have idle: "\<not> handleCommunitiesRunning initialState"
    by code_simp
  have threw: "snd (handleCommunities raisingHost exampleProps exampleGraph initialState)
                 = Threw GeneratorError"
    by code_simp
  from guard_idle_after_every_build
         [OF idle, of "[(raisingHost, exampleProps, exampleGraph)]" exampleHost exampleProps
            exampleGraph]
    idle threw
  show ?thesis by simp
qed

section \<open>Visibility of the nodes\<close>

text \<open>
  C8. In categorical mode (the renderer exists, a palette is published, the mode is not
  numeric) the visibility effect sets the flag \<open>hidden\<close> of every node to: the value of
  the node for the colour key is neither \<^verbatim>\<open>null\<close> nor \<^verbatim>\<open>undefined\<close>, and it is not in the
  visible set. So a node whose value is \<^verbatim>\<open>null\<close> or \<^verbatim>\<open>undefined\<close> is displayed after the
  effect, whatever the visible set is.
\<close>

theorem missing_value_never_hidden:
  assumes "sigmaInstance st = Some g" and "palette st \<noteq> []" and "\<not> isNumeric st"
    and "i < length (nodes g)"
  shows "\<exists>g'. sigmaInstance (visibilityEffect p st) = Some g'
           \<and> length (nodes g') = length (nodes g)
           \<and> fst (nodes g' ! i) = fst (nodes g ! i)
           \<and> attr (snd (nodes g' ! i)) ''hidden''
               = JBool (\<not> nullish (attr (snd (nodes g ! i)) (colorBy p))
                        \<and> attr (snd (nodes g ! i)) (colorBy p) \<notin> set (visibleComms st))
           \<and> (nullish (attr (snd (nodes g ! i)) (colorBy p))
                \<longrightarrow> displayed (snd (nodes g' ! i)))"
  using assms
  by (simp add: visibilityEffect_def attr_update_same displayed_def split: prod.splits)

theorem missing_value_never_hidden_witness:
  "sigmaInstance (toggleComm (Str ''A'') (toggleComm (Str ''B'') sparseLoaded)) = Some sparseGraph
   \<and> visibleComms (toggleComm (Str ''A'') (toggleComm (Str ''B'') sparseLoaded)) = []
   \<and> nullish (attr (snd (nodes sparseGraph ! 3)) (colorBy sparseProps))
   \<and> (\<exists>g'. sigmaInstance (visibilityEffect sparseProps
                (toggleComm (Str ''A'') (toggleComm (Str ''B'') sparseLoaded))) = Some g'
          \<and> fst (nodes g' ! 3) = ''n4''
          \<and> displayed (snd (nodes g' ! 3))
          \<and> attr (snd (nodes g' ! 0)) ''hidden'' = JBool True)"
proof -
  let ?st = "toggleComm (Str ''A'') (toggleComm (Str ''B'') sparseLoaded)"
  have g: "sigmaInstance ?st = Some sparseGraph"
    by (simp add: toggleComm_def sparseLoaded_graph)
  have pal: "palette ?st \<noteq> []"
    by (simp add: toggleComm_def sparseLoaded_palette)
  have cat: "\<not> isNumeric ?st"
    by code_simp
  have vis: "visibleComms ?st = []"
    by code_simp
  have i3: "3 < length (nodes sparseGraph)" and i0: "0 < length (nodes sparseGraph)"
    by code_simp+
  have missing: "nullish (attr (snd (nodes sparseGraph ! 3)) (colorBy sparseProps))"
    by code_simp
  have n4: "fst (nodes sparseGraph ! 3) = ''n4''"
    by code_simp
  have grp: "\<not> nullish (attr (snd (nodes sparseGraph ! 0)) (colorBy sparseProps))"
    by code_simp
  from missing_value_never_hidden [OF g pal cat i3, of sparseProps]
       missing_value_never_hidden [OF g pal cat i0, of sparseProps]
       g vis missing n4 grp
  show ?thesis by auto
qed

section \<open>The nodes of the built graph\<close>

text \<open>
  C9. The graph that \<^verbatim>\<open>loadFromEdgeList\<close> builds and hands to the renderer has exactly
  the ids that are the source or the target of an edge row as its nodes, each once: a
  metadata row whose id is in no edge row gives no node. A node without a metadata row
  has exactly the default attributes: coordinates drawn in \<open>[0, 10)\<close>, the size 0.7
  and its id as the label.
\<close>

theorem graph_nodes_are_edge_endpoints:
  "\<exists>g. sigmaInstance (fst (loadFromEdgeList h p st)) = Some g
       \<and> set (map fst (nodes g)) = rsource ` set (edgeRows p) \<union> rtarget ` set (edgeRows p)
       \<and> distinct (map fst (nodes g))
       \<and> (\<forall>na \<in> set (nodes g).
            (case metadataRef st of None \<Rightarrow> None | Some m \<Rightarrow> map_of m (fst na)) = None \<longrightarrow>
            (\<exists>x y. snd na = [(''x'', Num (Fin x)), (''y'', Num (Fin y)),
                              (''size'', Num (Fin (7 / 10))), (''label'', Str (fst na))]
                 \<and> 0 \<le> x \<and> x < 10 \<and> 0 \<le> y \<and> y < 10))"
proof -
  let ?es = "map mkEdge (edgeRows p)"
  let ?g0 = "\<lparr>nodes = [], edges = []\<rparr>"
  have "distinct (nodeSet ?es)" by (simp add: nodeSet_def)
  moreover have "set (nodeSet ?es) \<inter> fst ` set (nodes ?g0) = {}" by simp
  ultimately obtain g' k' where
    r: "addNodes h (metadataRef st) (nodeSet ?es) ?g0 (rngCount st) = Inr (g', k')"
    and m: "map fst (nodes g') = map fst (nodes ?g0) @ nodeSet ?es"
    and a: "\<forall>na \<in> set (nodes g'). na \<in> set (nodes ?g0)
             \<or> (\<exists>k0. snd na = fst (nodeAttributes h (metadataRef st) k0 (fst na)))"
    using addNodes_Inr [of "nodeSet ?es" ?g0 h "metadataRef st" "rngCount st"] by blast
  let ?g = "if edgeMode p = ''all'' then foldl tryAddEdge g' ?es else g'"
  have n: "nodes ?g = nodes g'" by simp
  have s: "sigmaInstance (fst (loadFromEdgeList h p st)) = Some ?g"
    using r by (simp add: loadFromEdgeList_def renderGraph_def handleCommunities_sigmaInstance)
  have ids: "set (map fst (nodes ?g)) = rsource ` set (edgeRows p) \<union> rtarget ` set (edgeRows p)"
    using m unfolding n by (simp add: set_nodeSet image_image mkEdge_def)
  have dist: "distinct (map fst (nodes ?g))"
    using m unfolding n by (simp add: nodeSet_def)
  have def: "\<forall>na \<in> set (nodes ?g).
            (case metadataRef st of None \<Rightarrow> None | Some m \<Rightarrow> map_of m (fst na)) = None \<longrightarrow>
            (\<exists>x y. snd na = [(''x'', Num (Fin x)), (''y'', Num (Fin y)),
                              (''size'', Num (Fin (7 / 10))), (''label'', Str (fst na))]
                 \<and> 0 \<le> x \<and> x < 10 \<and> 0 \<le> y \<and> y < 10)"
  proof (intro ballI impI)
    fix na assume "na \<in> set (nodes ?g)"
      and none: "(case metadataRef st of None \<Rightarrow> None | Some m \<Rightarrow> map_of m (fst na)) = None"
    then obtain k0 where "snd na = fst (nodeAttributes h (metadataRef st) k0 (fst na))"
      using a unfolding n by auto
    with nodeAttributes_no_metadata [OF none, of h k0]
    show "\<exists>x y. snd na = [(''x'', Num (Fin x)), (''y'', Num (Fin y)),
                              (''size'', Num (Fin (7 / 10))), (''label'', Str (fst na))]
                 \<and> 0 \<le> x \<and> x < 10 \<and> 0 \<le> y \<and> y < 10"
      by simp
  qed
  from s ids dist def show ?thesis by blast
qed

theorem graph_nodes_are_edge_endpoints_witness:
  "sigmaInstance sparseLoaded = Some sparseGraph
   \<and> map fst (nodes sparseGraph) = [''n1'', ''n2'', ''n3'', ''n4'']
   \<and> set (map fst (nodes sparseGraph))
       = rsource ` set (edgeRows sparseProps) \<union> rtarget ` set (edgeRows sparseProps)
   \<and> ''n9'' \<notin> set (map fst (nodes sparseGraph))
   \<and> map (\<lambda>r. attr r ''id'') (metadataRows sparseProps)
       = [Str ''n1'', Str ''n2'', Str ''n3'', Str ''n9'']
   \<and> nodes sparseGraph ! 3
       = (''n4'', [(''x'', Num (Fin 5)), (''y'', Num (Fin 5)), (''size'', Num (Fin (7 / 10))),
                   (''label'', Str ''n4'')])"
proof -
  from graph_nodes_are_edge_endpoints
         [of exampleHost sparseProps "metadataEffect exampleHost sparseProps initialState"]
  obtain g where g: "sigmaInstance sparseLoaded = Some g"
    and ids: "set (map fst (nodes g))
                = rsource ` set (edgeRows sparseProps) \<union> rtarget ` set (edgeRows sparseProps)"
    unfolding sparseLoaded_def by blast
  from g have eq: "g = sparseGraph" by (simp add: sparseLoaded_graph)
  have names: "map fst (nodes sparseGraph) = [''n1'', ''n2'', ''n3'', ''n4'']"
    by code_simp
  have rows: "map (\<lambda>r. attr r ''id'') (metadataRows sparseProps)
                = [Str ''n1'', Str ''n2'', Str ''n3'', Str ''n9'']"
    by code_simp
  have n4: "nodes sparseGraph ! 3
       = (''n4'', [(''x'', Num (Fin 5)), (''y'', Num (Fin 5)), (''size'', Num (Fin (7 / 10))),
                   (''label'', Str ''n4'')])"
    by code_simp
  have n9: "''n9'' \<notin> set (map fst (nodes sparseGraph))"
    unfolding names by simp
  from sparseLoaded_graph names ids [unfolded eq] n9 rows n4 show ?thesis
    by blast
qed

section \<open>The edges of the selected node\<close>



section \<open>The notification, once per load\<close>

text \<open>
  C4, as the code has it. Take a change of the rows that finds no timeout pending, with
  the renderer there and the callback passed, and let any publications and timeouts
  follow, but no other change of the rows. Once all pending timeouts have run,
  \<^verbatim>\<open>onNetworkReady\<close> has been called exactly once if a non-empty palette was published
  and not at all otherwise; at no moment has it been called more often, however many
  palettes were published. In general (changes of the rows may overlap pending
  timeouts) the calls made, the timeouts pending and the load still waiting for its
  palette together grow by at most one with each change of the rows.
\<close>

theorem network_ready_once_per_load:
  assumes "onNetworkReady p" and "sigmaInstance st \<noteq> None"
    and "pendingCallReady st = 0" and "pendingNotify st = 0"
    and "\<not> list_ex isDataChange evs"
  shows "notifications (settle p (run p st (DataChange # evs)))
           = notifications st + (if list_ex isSuccessfulPublication evs then 1 else 0)
       \<and> notifications (run p st (DataChange # evs))
           \<le> notifications st + (if list_ex isSuccessfulPublication evs then 1 else 0)
       \<and> notifications (run p' st' evs')
           \<le> notifications st' + pendingNotify st' + pendingCallReady st'
              + (if isInitialLoadRef st' then 1 else 0) + length (filter isDataChange evs')"
proof -
  have sg: "sigmaInstance (resetEffect st) \<noteq> None"
    using assms(2) by (simp add: resetEffect_def)
  have a: "notifications (settle p (run p st (DataChange # evs)))
           = notifications st + (if list_ex isSuccessfulPublication evs then 1 else 0)"
    using notifications_same_load [OF assms(1) sg assms(5)] assms(3,4)
    by (simp add: resetEffect_def)
  have b: "notifications (run p st (DataChange # evs))
           \<le> notifications st + (if list_ex isSuccessfulPublication evs then 1 else 0)"
    using a notifications_le_settle [of "run p st (DataChange # evs)" p] by simp
  have c: "notifications (run p' st' evs')
           \<le> notifications st' + pendingNotify st' + pendingCallReady st'
              + (if isInitialLoadRef st' then 1 else 0) + length (filter isDataChange evs')"
    using run_potential [of p' st' evs'] by simp
  from a b c show ?thesis by blast
qed

theorem network_ready_once_per_load_witness:
  "notifications (settle exampleProps (run exampleProps exampleLoaded
      [DataChange, PalettePublished [(''A'', ''#e6194b'')], CallReadyTimeout,
       PalettePublished [(''1'', ''#deebf7'')], NotifyTimeout,
       PalettePublished [(''B'', ''#3cb44b'')]])) = 1
   \<and> notifications (run exampleProps exampleLoaded [DataChange, PalettePublished []]) = 0"
proof -
  have h: "onNetworkReady exampleProps" "sigmaInstance exampleLoaded \<noteq> None"
    "pendingCallReady exampleLoaded = 0" "pendingNotify exampleLoaded = 0"
    "notifications exampleLoaded = 0"
    by code_simp+
  have nd: "\<not> list_ex isDataChange
      [PalettePublished [(''A'', ''#e6194b'')], CallReadyTimeout,
       PalettePublished [(''1'', ''#deebf7'')], NotifyTimeout,
       PalettePublished [(''B'', ''#3cb44b'')]]"
    "\<not> list_ex isDataChange [PalettePublished []]"
    by simp_all
  from network_ready_once_per_load [OF h(1) h(2) h(3) h(4) nd(1)]
       network_ready_once_per_load [OF h(1) h(2) h(3) h(4) nd(2)] h(5)
  show ?thesis by simp
qed

text \<open>
  C4 as stated fails when a second change of the rows arrives while the timeout of the
  first is pending: two loads, each with a successful publication, and after all
  timeouts have run \<^verbatim>\<open>onNetworkReady\<close> has been called once.
\<close>

theorem network_ready_overlapping_loads:
  "length (filter isDataChange
      [DataChange, PalettePublished [(''A'', ''#e6194b'')],
       DataChange, PalettePublished [(''A'', ''#e6194b'')],
       CallReadyTimeout, CallReadyTimeout, NotifyTimeout, NotifyTimeout]) = 2
   \<and> length (filter isSuccessfulPublication
      [DataChange, PalettePublished [(''A'', ''#e6194b'')],
       DataChange, PalettePublished [(''A'', ''#e6194b'')],
       CallReadyTimeout, CallReadyTimeout, NotifyTimeout, NotifyTimeout]) = 2
   \<and> notifications exampleLoaded = 0
   \<and> notifications (run exampleProps exampleLoaded
      [DataChange, PalettePublished [(''A'', ''#e6194b'')],
       DataChange, PalettePublished [(''A'', ''#e6194b'')],
       CallReadyTimeout, CallReadyTimeout, NotifyTimeout, NotifyTimeout]) = 1
   \<and> pendingCallReady (run exampleProps exampleLoaded
      [DataChange, PalettePublished [(''A'', ''#e6194b'')],
       DataChange, PalettePublished [(''A'', ''#e6194b'')],
       CallReadyTimeout, CallReadyTimeout, NotifyTimeout, NotifyTimeout]) = 0
   \<and> pendingNotify (run exampleProps exampleLoaded
      [DataChange, PalettePublished [(''A'', ''#e6194b'')],
       DataChange, PalettePublished [(''A'', ''#e6194b'')],
       CallReadyTimeout, CallReadyTimeout, NotifyTimeout, NotifyTimeout]) = 0"
  by code_simp

section \<open>The classification of the colour key\<close>




section \<open>Hidden nodes in numeric mode\<close>

text \<open>
  C6 does not hold of the code. In numeric mode the visibility effect returns before it
  touches the graph, so it hides no node, but it does not show the nodes that an earlier
  categorical mode has hidden either: after the group \<open>A\<close> is toggled off and the colour
  key changes to the numeric \<open>score\<close>, the mode is Numeric, the visible set is empty and
  the nodes \<open>n2\<close> and \<open>n3\<close> of the group \<open>A\<close> are still hidden.
\<close>

theorem hidden_nodes_stay_hidden_in_numeric_mode:
  "isNumeric hiddenThenNumeric
   \<and> visibleComms hiddenThenNumeric = []
   \<and> (case sigmaInstance hiddenThenNumeric of
         None \<Rightarrow> []
       | Some g \<Rightarrow> map (\<lambda>na. (fst na, displayed (snd na))) (nodes g))
       = [(''n1'', True), (''n2'', False), (''n3'', False)]"
  by code_simp

section \<open>The gradient stops of a numeric key\<close>



section \<open>The colour of every node\<close>




section \<open>A generator that fails\<close>




end
